theory Spec2Isabelle
  imports Main "HOL-Library.Word" "HOL-Library.Multiset"
begin

section \<open>Strings of the page script\<close>

text \<open>
  A JavaScript string is a sequence of UTF-16 code units. The script of
  \<^verbatim>\<open>routes/+page.svelte\<close> trims the title with \<^verbatim>\<open>String.prototype.trim\<close>, whose
  white space is defined on code units, so strings are lists of 16-bit words.
\<close>

type_synonym jstring = "16 word list"

definition lit :: "string \<Rightarrow> jstring" where
  "lit s = map of_char s"

text \<open>
  \<^verbatim>\<open>trim\<close> removes, at both ends, the code units of ECMAScript's WhiteSpace and
  LineTerminator productions: TAB, LF, VT, FF, CR, SP, NBSP, U+1680, U+2000 to U+200A,
  U+2028, U+2029, U+202F, U+205F, U+3000 and U+FEFF.
\<close>

definition white_space :: "16 word \<Rightarrow> bool" where
  "white_space c =
     (c = 0x9 \<or> c = 0xA \<or> c = 0xB \<or> c = 0xC \<or> c = 0xD \<or> c = 0x20 \<or> c = 0xA0 \<or>
      c = 0x1680 \<or> (0x2000 \<le> c \<and> c \<le> 0x200A) \<or> c = 0x2028 \<or> c = 0x2029 \<or>
      c = 0x202F \<or> c = 0x205F \<or> c = 0x3000 \<or> c = 0xFEFF)"

definition trim :: "jstring \<Rightarrow> jstring" where
  "trim s = rev (dropWhile white_space (rev (dropWhile white_space s)))"

text \<open>
  The template literal \<^verbatim>\<open>`Request failed: ${res.status}`\<close> renders the status, a
  non-negative integer, in decimal without leading zeros.
\<close>

fun to_string :: "nat \<Rightarrow> jstring" where
  "to_string n =
     (if n < 10 then [of_nat (48 + n)]
      else to_string (n div 10) @ [of_nat (48 + n mod 10)])"

declare to_string.simps [simp del]

section \<open>Data of the page script\<close>

text \<open>The type \<^verbatim>\<open>Note\<close> (lines 2 to 8). The field \<^verbatim>\<open>id\<close> is written \<open>id'\<close>.\<close>

record Note =
  id' :: jstring
  title :: jstring
  content :: jstring
  createdAt :: jstring
  updatedAt :: jstring

text \<open>The module variables of lines 16 to 27 (\<^verbatim>\<open>notes\<close> is written \<open>notes'\<close>); \<^verbatim>\<open>null\<close> is \<open>None\<close>.\<close>

record state =
  notes' :: "Note list"
  loading :: bool
  saving :: bool
  deletingId :: "jstring option"
  selectedId :: "jstring option"
  formTitle :: jstring
  formContent :: jstring
  errorMessage :: "jstring option"

text \<open>
  A value caught by \<^verbatim>\<open>catch (e)\<close>: either an instance of \<^verbatim>\<open>Error\<close>, which carries a
  message, or anything else. \<open>message_or\<close> is the expression
  \<^verbatim>\<open>e instanceof Error ? e.message : fallback\<close> of lines 61, 114 and 128.
\<close>

datatype thrown = Error jstring | Not_an_Error

definition message_or :: "thrown \<Rightarrow> jstring \<Rightarrow> jstring" where
  "message_or e fallback = (case e of Error m \<Rightarrow> m | Not_an_Error \<Rightarrow> fallback)"

section \<open>The gateway: \<^verbatim>\<open>api\<close>\<close>

text \<open>
  The second argument of \<^verbatim>\<open>fetch\<close> (its \<^verbatim>\<open>method\<close> is written \<open>method'\<close>). A request body is always
  \<^verbatim>\<open>JSON.stringify({ title, content })\<close>; it is kept as the pair it serialises.
\<close>

datatype json_text = JSON_stringify jstring jstring

record init =
  headers :: "(jstring \<times> jstring) list option"
  method' :: "jstring option"
  body :: "json_text option"

type_synonym request = "jstring \<times> init"

text \<open>
  What \<^verbatim>\<open>fetch\<close> resolves to: the status, the outcome of \<^verbatim>\<open>res.text()\<close> and the
  outcome of \<^verbatim>\<open>res.json()\<close>, either of which may reject. The decoded body has the
  type \<open>'a\<close> that the caller asserts with \<^verbatim>\<open>as T\<close>. \<^verbatim>\<open>res.ok\<close> is true for a status
  from 200 to 299.
\<close>

record 'a response =
  status :: nat
  res_text :: "thrown + jstring"
  res_json :: "thrown + 'a"

definition ok :: "'a response \<Rightarrow> bool" where
  "ok res = (200 \<le> status res \<and> status res \<le> 299)"

text \<open>
  The object \<^verbatim>\<open>{ headers: { "Content-Type": "application/json", ...(init?.headers ?? {}) }, ...init }\<close>
  of lines 38 to 41: the spread of \<^verbatim>\<open>init\<close> comes last, so a \<^verbatim>\<open>headers\<close> entry
  of \<^verbatim>\<open>init\<close> replaces the merged one.
\<close>

definition fetch_options :: "init option \<Rightarrow> init" where
  "fetch_options i =
     (case i of
        None \<Rightarrow>
          \<lparr>headers = Some [(lit ''Content-Type'', lit ''application/json'')],
           method' = None, body = None\<rparr>
      | Some j \<Rightarrow>
          (case headers j of
             None \<Rightarrow> j\<lparr>headers := Some [(lit ''Content-Type'', lit ''application/json'')]\<rparr>
           | Some h \<Rightarrow> j))"

text \<open>
  \<^verbatim>\<open>api\<close> (lines 37 to 52), with the base URL and \<^verbatim>\<open>fetch\<close> as parameters. The
  result is the list of requests issued, and either the value thrown or the value returned,
  where \<open>None\<close> is the \<^verbatim>\<open>undefined\<close> of line 49.
\<close>

definition api ::
  "jstring \<Rightarrow> (request \<Rightarrow> thrown + 'a response) \<Rightarrow> jstring \<Rightarrow> init option
     \<Rightarrow> request list \<times> (thrown + 'a option)" where
  "api API_BASE fetch path i =
     (let req = (API_BASE @ path, fetch_options i) in
      ([req],
       case fetch req of
         Inl e \<Rightarrow> Inl e
       | Inr res \<Rightarrow>
           if \<not> ok res then
             (let text = (case res_text res of Inl _ \<Rightarrow> [] | Inr t \<Rightarrow> t) in
              Inl (Error (if text \<noteq> [] then text
                          else lit ''Request failed: '' @ to_string (status res))))
           else if status res = 204 then Inr None
           else (case res_json res of Inl e \<Rightarrow> Inl e | Inr v \<Rightarrow> Inr (Some v))))"

text \<open>The three \<^verbatim>\<open>init\<close> objects the script passes (lines 96, 102 and 124).\<close>

definition put_init :: "jstring \<Rightarrow> jstring \<Rightarrow> init" where
  "put_init t c =
     \<lparr>headers = None, method' = Some (lit ''PUT''), body = Some (JSON_stringify t c)\<rparr>"

definition post_init :: "jstring \<Rightarrow> jstring \<Rightarrow> init" where
  "post_init t c =
     \<lparr>headers = None, method' = Some (lit ''POST''), body = Some (JSON_stringify t c)\<rparr>"

definition delete_init :: init where
  "delete_init = \<lparr>headers = None, method' = Some (lit ''DELETE''), body = None\<rparr>"

section \<open>Sorting by \<^verbatim>\<open>updatedAt\<close>\<close>

text \<open>
  \<^verbatim>\<open>new Date(s).getTime()\<close> is a parameter \<open>getTime\<close>: the milliseconds since the
  epoch, or \<open>None\<close> for the \<^verbatim>\<open>NaN\<close> of a string that is not a date. The comparator
  of line 111 subtracts two such numbers; the difference of two time values has the sign of
  the exact difference, and \<^verbatim>\<open>NaN\<close> propagates.
\<close>

definition by_updatedAt :: "(jstring \<Rightarrow> int option) \<Rightarrow> Note \<Rightarrow> Note \<Rightarrow> int option" where
  "by_updatedAt getTime a b =
     (case (getTime (updatedAt b), getTime (updatedAt a)) of
        (Some tb, Some ta) \<Rightarrow> Some (tb - ta)
      | _ \<Rightarrow> None)"

text \<open>
  \<^verbatim>\<open>Array.prototype.sort\<close> is stable and reads a \<^verbatim>\<open>NaN\<close> from the comparator as 0.
  For a consistent comparator it has one result, the one of this stable insertion sort;
  for an inconsistent one (some \<^verbatim>\<open>updatedAt\<close> that is not a date) the language leaves
  the order to the engine, and an engine's order may differ from the one computed here.
  Every statement below about the order assumes dates; statements about the entries and
  their number hold for any permutation.
\<close>

fun insert_sorted :: "('a \<Rightarrow> 'a \<Rightarrow> int option) \<Rightarrow> 'a \<Rightarrow> 'a list \<Rightarrow> 'a list" where
  "insert_sorted cmp x [] = [x]"
| "insert_sorted cmp x (y # ys) =
     (if (case cmp x y of None \<Rightarrow> 0 | Some v \<Rightarrow> v) \<le> 0 then x # y # ys
      else y # insert_sorted cmp x ys)"

fun array_sort :: "('a \<Rightarrow> 'a \<Rightarrow> int option) \<Rightarrow> 'a list \<Rightarrow> 'a list" where
  "array_sort cmp [] = []"
| "array_sort cmp (x # xs) = insert_sorted cmp x (array_sort cmp xs)"

text \<open>The property the specification names: later \<^verbatim>\<open>updatedAt\<close> first.\<close>

definition desc_by_updatedAt :: "(jstring \<Rightarrow> int option) \<Rightarrow> Note list \<Rightarrow> bool" where
  "desc_by_updatedAt getTime ns =
     sorted_wrt (\<lambda>a b. case (getTime (updatedAt a), getTime (updatedAt b)) of
                          (Some ta, Some tb) \<Rightarrow> tb \<le> ta
                        | _ \<Rightarrow> False) ns"

section \<open>The view-model\<close>

text \<open>
  Each function takes the state before and returns the requests it issued and the state
  after, one handler run at a time. Line 49 hands \<^verbatim>\<open>undefined\<close> to its caller on a 204
  answer. A caller that stores it in \<^verbatim>\<open>notes\<close> ends with a collection outside the
  type \<^verbatim>\<open>Note[]\<close>; the run still ends, and the outcome says how:
  \<^item> \<open>Done s\<close>: the variables are those of \<open>s\<close>;
  \<^item> \<open>Undefined_notes s\<close>: \<^verbatim>\<open>notes\<close> is \<^verbatim>\<open>undefined\<close> (Load, line 59), the other
    variables are those of \<open>s\<close>;
  \<^item> \<open>Undefined_first s\<close>: \<^verbatim>\<open>notes\<close> is \<^verbatim>\<open>undefined\<close> followed by the entries
    \<open>notes' s\<close> (the create branch of Save, line 105), the other variables are those of
    \<open>s\<close>.
\<close>

datatype 'a outcome = Done 'a | Undefined_notes 'a | Undefined_first 'a

fun final_state :: "'a outcome \<Rightarrow> 'a" where
  "final_state (Done s) = s"
| "final_state (Undefined_notes s) = s"
| "final_state (Undefined_first s) = s"

text \<open>
  Reading \<^verbatim>\<open>updated.id\<close> (line 99) or \<^verbatim>\<open>created.id\<close> (line 106) of
  \<^verbatim>\<open>undefined\<close> throws a TypeError, an \<^verbatim>\<open>Error\<close> whose message is the engine's; the
  one of V8 is taken.
\<close>

definition undefined_id_message :: jstring where
  "undefined_id_message = lit ''Cannot read properties of undefined (reading 'id')''"

definition truthy :: "jstring option \<Rightarrow> bool" where
  "truthy v = (case v of None \<Rightarrow> False | Some x \<Rightarrow> x \<noteq> [])"

definition loadNotes ::
  "jstring \<Rightarrow> (request \<Rightarrow> thrown + Note list response) \<Rightarrow> state
     \<Rightarrow> request list \<times> state outcome" where
  "loadNotes API_BASE fetch s =
     (let s1 = s\<lparr>loading := True, errorMessage := None\<rparr> in
      case api API_BASE fetch (lit ''/notes'') None of
        (log, r) \<Rightarrow>
          (log,
           case r of
             Inr (Some ns) \<Rightarrow> Done (s1\<lparr>notes' := ns, loading := False\<rparr>)
           | Inr None \<Rightarrow> Undefined_notes (s1\<lparr>loading := False\<rparr>)
           | Inl e \<Rightarrow>
               Done (s1\<lparr>errorMessage := Some (message_or e (lit ''Failed to load notes'')),
                        loading := False\<rparr>)))"

definition startCreate :: "state \<Rightarrow> state" where
  "startCreate s = s\<lparr>selectedId := None, formTitle := [], formContent := [], errorMessage := None\<rparr>"

definition startEdit :: "Note \<Rightarrow> state \<Rightarrow> state" where
  "startEdit n s =
     s\<lparr>selectedId := Some (id' n), formTitle := title n, formContent := content n,
       errorMessage := None\<rparr>"

definition save ::
  "jstring \<Rightarrow> (request \<Rightarrow> thrown + Note response) \<Rightarrow> (jstring \<Rightarrow> int option) \<Rightarrow> state
     \<Rightarrow> request list \<times> state outcome" where
  "save API_BASE fetch getTime s =
     (let s1 = s\<lparr>errorMessage := None\<rparr>;
          t = trim (formTitle s1);
          c = formContent s1
      in
      if t = [] then ([], Done (s1\<lparr>errorMessage := Some (lit ''Title is required.'')\<rparr>))
      else
        (let s2 = s1\<lparr>saving := True\<rparr> in
         if truthy (selectedId s2) then
           (case api API_BASE fetch (lit ''/notes/'' @ the (selectedId s2)) (Some (put_init t c)) of
              (log, r) \<Rightarrow>
                (log,
                 case r of
                   Inr (Some updated) \<Rightarrow>
                     Done (s2\<lparr>notes' :=
                                array_sort (by_updatedAt getTime)
                                  (map (\<lambda>n. if id' n = id' updated then updated else n) (notes' s2)),
                              saving := False\<rparr>)
                 | Inr None \<Rightarrow>
                     if notes' s2 = [] then
                       Done (s2\<lparr>notes' := array_sort (by_updatedAt getTime) [], saving := False\<rparr>)
                     else
                       Done (s2\<lparr>errorMessage :=
                                  Some (message_or (Error undefined_id_message)
                                          (lit ''Failed to save note'')),
                                saving := False\<rparr>)
                 | Inl e \<Rightarrow>
                     Done (s2\<lparr>errorMessage := Some (message_or e (lit ''Failed to save note'')),
                              saving := False\<rparr>)))
         else
           (case api API_BASE fetch (lit ''/notes'') (Some (post_init t c)) of
              (log, r) \<Rightarrow>
                (log,
                 case r of
                   Inr (Some created) \<Rightarrow>
                     Done (s2\<lparr>notes' := array_sort (by_updatedAt getTime) (created # notes' s2),
                              selectedId := Some (id' created),
                              saving := False\<rparr>)
                 | Inr None \<Rightarrow>
                     Undefined_first
                       (s2\<lparr>errorMessage :=
                              Some (message_or (Error undefined_id_message)
                                      (lit ''Failed to save note'')),
                           saving := False\<rparr>)
                 | Inl e \<Rightarrow>
                     Done (s2\<lparr>errorMessage := Some (message_or e (lit ''Failed to save note'')),
                              saving := False\<rparr>)))))"

definition deleteNote ::
  "jstring \<Rightarrow> (request \<Rightarrow> thrown + unit response) \<Rightarrow> jstring \<Rightarrow> state
     \<Rightarrow> request list \<times> state" where
  "deleteNote API_BASE fetch i s =
     (let s1 = s\<lparr>errorMessage := None, deletingId := Some i\<rparr> in
      case api API_BASE fetch (lit ''/notes/'' @ i) (Some delete_init) of
        (log, r) \<Rightarrow>
          (log,
           case r of
             Inr _ \<Rightarrow>
               (let s2 = s1\<lparr>notes' := filter (\<lambda>n. id' n \<noteq> i) (notes' s1)\<rparr>;
                    s3 = (if selectedId s2 = Some i then startCreate s2 else s2)
                in s3\<lparr>deletingId := None\<rparr>)
           | Inl e \<Rightarrow>
               s1\<lparr>errorMessage := Some (message_or e (lit ''Failed to delete note'')),
                  deletingId := None\<rparr>))"

text \<open>The values the script gives its variables at start (lines 16 to 27).\<close>

definition initial_state :: state where
  "initial_state =
     \<lparr>notes' = [], loading = True, saving = False, deletingId = None, selectedId = None,
      formTitle = [], formContent = [], errorMessage = None\<rparr>"

section \<open>Example data\<close>

text \<open>
  Three notes, the time values of their dates, the development fallback of the base URL
  (line 14), and a server that gives every request the same answer.
\<close>

definition ex_base :: jstring where
  "ex_base = lit ''http://localhost:3001''"

definition ex_getTime :: "jstring \<Rightarrow> int option" where
  "ex_getTime d =
     (if d = lit ''2024-01-01T00:00:00.000Z'' then Some 1704067200000
      else if d = lit ''2024-01-02T00:00:00.000Z'' then Some 1704153600000
      else if d = lit ''2024-01-03T00:00:00.000Z'' then Some 1704240000000
      else None)"

definition note_a :: Note where
  "note_a = \<lparr>id' = lit ''1'', title = lit ''Title A'', content = lit ''body'',
             createdAt = lit ''2024-01-01T00:00:00.000Z'',
             updatedAt = lit ''2024-01-01T00:00:00.000Z''\<rparr>"

definition note_b :: Note where
  "note_b = \<lparr>id' = lit ''2'', title = lit ''Title B'', content = lit ''text'',
             createdAt = lit ''2024-01-02T00:00:00.000Z'',
             updatedAt = lit ''2024-01-02T00:00:00.000Z''\<rparr>"

definition note_c :: Note where
  "note_c = \<lparr>id' = lit ''3'', title = lit ''Title C'', content = lit ''more'',
             createdAt = lit ''2024-01-01T00:00:00.000Z'',
             updatedAt = lit ''2024-01-03T00:00:00.000Z''\<rparr>"

definition answers :: "nat \<Rightarrow> jstring \<Rightarrow> thrown + 'a \<Rightarrow> request \<Rightarrow> thrown + 'a response" where
  "answers st t j req = Inr \<lparr>status = st, res_text = Inr t, res_json = j\<rparr>"

definition no_json :: "thrown + 'a" where
  "no_json = Inl (Error (lit ''Unexpected end of JSON input''))"

text \<open>A \<^verbatim>\<open>fetch\<close> that rejects with a given value.\<close>

definition rejects :: "thrown \<Rightarrow> request \<Rightarrow> thrown + 'a response" where
  "rejects e req = Inl e"

text \<open>Two states of the page: editing the note 1, and creating a note.\<close>

definition editing :: state where
  "editing =
     \<lparr>notes' = [note_b, note_a], loading = False, saving = False, deletingId = None,
      selectedId = Some (lit ''1''), formTitle = lit '' New '', formContent = lit ''body2'',
      errorMessage = None\<rparr>"

definition creating :: state where
  "creating =
     \<lparr>notes' = [note_b, note_a], loading = False, saving = False, deletingId = None,
      selectedId = None, formTitle = lit ''Title C'', formContent = lit ''more'',
      errorMessage = None\<rparr>"

text \<open>The state after a Load whose answer lists the three notes oldest first.\<close>

definition loaded :: state where
  "loaded = initial_state\<lparr>notes' := [note_a, note_b, note_c], loading := False\<rparr>"

section \<open>Auxiliary facts\<close>

lemma api_requests: "fst (api base fetch path i) = [(base @ path, fetch_options i)]"
  by (simp add: api_def Let_def)

lemma dropWhile_all_iff: "(\<forall>x\<in>set (dropWhile P s). P x) \<longleftrightarrow> (\<forall>x\<in>set s. P x)"
  by (induction s) auto

lemma trim_Nil_iff: "trim s = [] \<longleftrightarrow> list_all white_space s"
  by (simp add: trim_def dropWhile_eq_Nil_conv dropWhile_all_iff list_all_iff)

lemma mset_insert_sorted: "mset (insert_sorted cmp x xs) = add_mset x (mset xs)"
  by (induction xs) auto

lemma mset_array_sort: "mset (array_sort cmp xs) = mset xs"
  by (induction xs) (auto simp: mset_insert_sorted)

lemma set_array_sort: "set (array_sort cmp xs) = set xs"
  by (metis mset_array_sort set_mset_mset)

lemma length_array_sort: "length (array_sort cmp xs) = length xs"
  by (metis mset_array_sort size_mset)

lemma desc_insert_sorted:
  "getTime (updatedAt x) \<noteq> None \<Longrightarrow> \<forall>n\<in>set xs. getTime (updatedAt n) \<noteq> None \<Longrightarrow>
   desc_by_updatedAt getTime xs \<Longrightarrow>
   desc_by_updatedAt getTime (insert_sorted (by_updatedAt getTime) x xs)"
proof (induction xs)
  case Nil
  then show ?case by (simp add: desc_by_updatedAt_def)
next
  case (Cons y ys)
  from Cons.prems obtain tx ty where t: "getTime (updatedAt x) = Some tx" "getTime (updatedAt y) = Some ty"
    by auto
  have ih: "desc_by_updatedAt getTime (insert_sorted (by_updatedAt getTime) x ys)"
    using Cons by (simp add: desc_by_updatedAt_def)
  show ?case
  proof (cases "ty \<le> tx")
    case True
    then have "insert_sorted (by_updatedAt getTime) x (y # ys) = x # y # ys"
      by (simp add: by_updatedAt_def t)
    moreover have "\<forall>z\<in>set ys. (case (getTime (updatedAt x), getTime (updatedAt z)) of
        (Some ta, Some tb) \<Rightarrow> tb \<le> ta | _ \<Rightarrow> False)"
      using Cons.prems(3) True t by (auto simp: desc_by_updatedAt_def split: option.splits)
    ultimately show ?thesis
      using Cons.prems(3) True t by (simp add: desc_by_updatedAt_def)
  next
    case False
    then have "insert_sorted (by_updatedAt getTime) x (y # ys)
      = y # insert_sorted (by_updatedAt getTime) x ys"
      by (simp add: by_updatedAt_def t)
    moreover have "set (insert_sorted (by_updatedAt getTime) x ys) = insert x (set ys)"
      by (metis mset_insert_sorted set_mset_add_mset_insert set_mset_mset)
    ultimately show ?thesis
      using Cons.prems(3) False t ih by (simp add: desc_by_updatedAt_def)
  qed
qed

lemma desc_array_sort:
  "\<forall>n\<in>set xs. getTime (updatedAt n) \<noteq> None \<Longrightarrow>
   desc_by_updatedAt getTime (array_sort (by_updatedAt getTime) xs)"
proof (induction xs)
  case Nil
  then show ?case by (simp add: desc_by_updatedAt_def)
next
  case (Cons x xs)
  then show ?case by (simp add: desc_insert_sorted set_array_sort)
qed

lemma desc_filter: "desc_by_updatedAt getTime xs \<Longrightarrow> desc_by_updatedAt getTime (filter P xs)"
  by (simp add: desc_by_updatedAt_def sorted_wrt_filter)

lemma map_replace_absent:
  "k \<notin> id' ` set xs \<Longrightarrow> map (\<lambda>n. if id' n = k then u else n) xs = xs"
  by (induction xs) auto

lemma trim_editing: "trim (formTitle editing) = lit ''New''"
  by (simp add: editing_def trim_def lit_def white_space_def)

lemma trim_creating: "trim (formTitle creating) = lit ''Title C''"
  by (simp add: creating_def trim_def lit_def white_space_def)

section \<open>Claims\<close>

subsection \<open>Order of the collection\<close>

text \<open>
  C1, as the script has it. After a Save whose call returns a note, the collection is
  sorted by \<^verbatim>\<open>updatedAt\<close>, latest first, in the create branch and in the update
  branch alike, provided the \<^verbatim>\<open>updatedAt\<close> of every note held and of the note returned
  is a date. A Delete whose call succeeds removes entries and moves none: the collection is
  sorted after it when it was sorted before it.
\<close>

theorem save_sorts_delete_keeps_order:
  "(trim (formTitle s) \<noteq> [] \<and>
    (if truthy (selectedId s)
     then api base fetch (lit ''/notes/'' @ the (selectedId s))
            (Some (put_init (trim (formTitle s)) (formContent s)))
     else api base fetch (lit ''/notes'')
            (Some (post_init (trim (formTitle s)) (formContent s)))) = (log, Inr (Some r)) \<and>
    list_all (\<lambda>n. getTime (updatedAt n) \<noteq> None) (r # notes' s)
    \<longrightarrow> (\<exists>s'. save base fetch getTime s = (log, Done s') \<and>
              desc_by_updatedAt getTime (notes' s'))) \<and>
   (api base fetch_d (lit ''/notes/'' @ i) (Some delete_init) = (log_d, Inr v) \<and>
    desc_by_updatedAt getTime (notes' s)
    \<longrightarrow> desc_by_updatedAt getTime (notes' (snd (deleteNote base fetch_d i s))))"
proof -
  have upd: "desc_by_updatedAt getTime
      (array_sort (by_updatedAt getTime) (map (\<lambda>n. if id' n = id' r then r else n) (notes' s)))"
    if "list_all (\<lambda>n. getTime (updatedAt n) \<noteq> None) (r # notes' s)"
    using that by (intro desc_array_sort) (auto simp: list_all_iff)
  have cre: "desc_by_updatedAt getTime (array_sort (by_updatedAt getTime) (r # notes' s))"
    if "list_all (\<lambda>n. getTime (updatedAt n) \<noteq> None) (r # notes' s)"
    using that by (intro desc_array_sort) (auto simp: list_all_iff)
  have del: "desc_by_updatedAt getTime (notes' (snd (deleteNote base fetch_d i s)))"
    if "api base fetch_d (lit ''/notes/'' @ i) (Some delete_init) = (log_d, Inr v)"
      and "desc_by_updatedAt getTime (notes' s)"
    using that by (simp add: deleteNote_def Let_def startCreate_def desc_filter)
  have sav: "\<exists>s'. save base fetch getTime s = (log, Done s') \<and>
              desc_by_updatedAt getTime (notes' s')"
    if "trim (formTitle s) \<noteq> []"
      and "(if truthy (selectedId s)
     then api base fetch (lit ''/notes/'' @ the (selectedId s))
            (Some (put_init (trim (formTitle s)) (formContent s)))
     else api base fetch (lit ''/notes'')
            (Some (post_init (trim (formTitle s)) (formContent s)))) = (log, Inr (Some r))"
      and "list_all (\<lambda>n. getTime (updatedAt n) \<noteq> None) (r # notes' s)"
  proof (cases "truthy (selectedId s)")
    case True
    with that(1,2) upd [OF that(3)] show ?thesis
      by (simp add: save_def Let_def del: array_sort.simps)
  next
    case False
    with that(1,2) cre [OF that(3)] show ?thesis
      by (simp add: save_def Let_def del: array_sort.simps)
  qed
  from sav del show ?thesis by blast
qed

theorem save_sorts_delete_keeps_order_witness:
  "save ex_base (answers 201 [] (Inr note_c)) ex_getTime creating =
     ([(ex_base @ lit ''/notes'', fetch_options (Some (post_init (lit ''Title C'') (lit ''more''))))],
      Done (creating\<lparr>notes' := [note_c, note_b, note_a], selectedId := Some (lit ''3'')\<rparr>)) \<and>
   desc_by_updatedAt ex_getTime [note_c, note_b, note_a] \<and>
   desc_by_updatedAt ex_getTime (notes' editing) \<and>
   notes' (snd (deleteNote ex_base (answers 204 [] no_json) (lit ''1'') editing)) = [note_b] \<and>
   desc_by_updatedAt ex_getTime [note_b]"
proof -
  let ?log = "[(ex_base @ lit ''/notes'', fetch_options (Some (post_init (lit ''Title C'') (lit ''more''))))]"
  have t: "trim (formTitle creating) \<noteq> []"
    by (simp add: trim_creating lit_def)
  have c: "(if truthy (selectedId creating)
     then api ex_base (answers 201 [] (Inr note_c)) (lit ''/notes/'' @ the (selectedId creating))
            (Some (put_init (trim (formTitle creating)) (formContent creating)))
     else api ex_base (answers 201 [] (Inr note_c)) (lit ''/notes'')
            (Some (post_init (trim (formTitle creating)) (formContent creating))))
     = (?log, Inr (Some note_c))"
    unfolding trim_creating
    by (simp add: creating_def truthy_def api_def answers_def ok_def)
  have v: "list_all (\<lambda>n. ex_getTime (updatedAt n) \<noteq> None) (note_c # notes' creating)"
    by (simp add: creating_def ex_getTime_def note_a_def note_b_def note_c_def lit_def)
  have run: "save ex_base (answers 201 [] (Inr note_c)) ex_getTime creating =
     (?log, Done (creating\<lparr>notes' := [note_c, note_b, note_a], selectedId := Some (lit ''3'')\<rparr>))"
    using t c
    by (simp add: save_def Let_def creating_def truthy_def by_updatedAt_def ex_getTime_def
        note_a_def note_b_def note_c_def lit_def)
  have a: "api ex_base (answers 204 [] no_json) (lit ''/notes/'' @ lit ''1'') (Some delete_init)
      = ([(ex_base @ lit ''/notes/1'', fetch_options (Some delete_init))], Inr (None :: unit option))"
    by (simp add: api_def answers_def ok_def lit_def)
  have d: "desc_by_updatedAt ex_getTime (notes' editing)"
    by (simp add: desc_by_updatedAt_def editing_def ex_getTime_def note_a_def note_b_def lit_def)
  have n: "notes' (snd (deleteNote ex_base (answers 204 [] no_json) (lit ''1'') editing)) = [note_b]"
    using a by (simp add: deleteNote_def Let_def startCreate_def editing_def note_a_def note_b_def lit_def)
  have "\<exists>s'. save ex_base (answers 201 [] (Inr note_c)) ex_getTime creating = (?log, Done s') \<and>
          desc_by_updatedAt ex_getTime (notes' s')"
    using save_sorts_delete_keeps_order [of creating ex_base "answers 201 [] (Inr note_c)" ?log
        note_c ex_getTime] t c v
    by blast
  then have sorted_after_save: "desc_by_updatedAt ex_getTime [note_c, note_b, note_a]"
    unfolding run by simp
  have "desc_by_updatedAt ex_getTime
          (notes' (snd (deleteNote ex_base (answers 204 [] no_json) (lit ''1'') editing)))"
    using save_sorts_delete_keeps_order [of editing ex_base _ _ _ ex_getTime
        "answers 204 [] no_json" "lit ''1''"
        "[(ex_base @ lit ''/notes/1'', fetch_options (Some delete_init))]" None] a d
    by blast
  then have sorted_after_delete: "desc_by_updatedAt ex_getTime [note_b]"
    unfolding n .
  from run sorted_after_save d n sorted_after_delete show ?thesis
    by blast
qed

text \<open>
  Load stores the collection as the server lists it, and Delete does not sort. When the
  server lists the notes oldest first and the note 3 is then deleted with success, the
  collection that remains is not sorted latest first: C1 as stated fails for Delete.
\<close>

theorem delete_after_load_unsorted:
  "loadNotes ex_base (answers 200 [] (Inr [note_a, note_b, note_c])) initial_state =
     ([(ex_base @ lit ''/notes'', fetch_options None)], Done loaded) \<and>
   deleteNote ex_base (answers 204 [] no_json) (lit ''3'') loaded =
     ([(ex_base @ lit ''/notes/3'', fetch_options (Some delete_init))],
      loaded\<lparr>notes' := [note_a, note_b]\<rparr>) \<and>
   errorMessage (loaded\<lparr>notes' := [note_a, note_b]\<rparr>) = None \<and>
   \<not> desc_by_updatedAt ex_getTime (notes' (loaded\<lparr>notes' := [note_a, note_b]\<rparr>))"
proof -
  have "loadNotes ex_base (answers 200 [] (Inr [note_a, note_b, note_c])) initial_state =
     ([(ex_base @ lit ''/notes'', fetch_options None)], Done loaded)"
    by (simp add: loadNotes_def api_def answers_def ok_def loaded_def initial_state_def)
  moreover have "deleteNote ex_base (answers 204 [] no_json) (lit ''3'') loaded =
     ([(ex_base @ lit ''/notes/3'', fetch_options (Some delete_init))],
      loaded\<lparr>notes' := [note_a, note_b]\<rparr>)"
    by (simp add: deleteNote_def api_def answers_def ok_def loaded_def initial_state_def
        note_a_def note_b_def note_c_def lit_def)
  moreover have "errorMessage (loaded\<lparr>notes' := [note_a, note_b]\<rparr>) = None"
    by (simp add: loaded_def initial_state_def)
  moreover have "\<not> desc_by_updatedAt ex_getTime (notes' (loaded\<lparr>notes' := [note_a, note_b]\<rparr>))"
    by (simp add: desc_by_updatedAt_def ex_getTime_def note_a_def note_b_def lit_def)
  ultimately show ?thesis by blast
qed

subsection \<open>Save with a blank title\<close>

text \<open>
  C2. When the title of the form draft is empty or consists of white space only, Save
  sets the error message to "Title is required." and stops: it issues no request, and the
  state is otherwise as before, the collection and the selection included.
\<close>

theorem save_blank_title:
  assumes "list_all white_space (formTitle s)"
  shows "save base fetch getTime s =
           ([], Done (s\<lparr>errorMessage := Some (lit ''Title is required.'')\<rparr>))"
  using assms by (simp add: save_def trim_Nil_iff)

theorem save_blank_title_witness:
  "list_all white_space (lit ''  '') \<and>
   save ex_base (answers 200 [] (Inr note_a)) ex_getTime (initial_state\<lparr>formTitle := lit ''  ''\<rparr>) =
     ([], Done (initial_state\<lparr>formTitle := lit ''  '',
                             errorMessage := Some (lit ''Title is required.'')\<rparr>))"
proof -
  have h: "list_all white_space (formTitle (initial_state\<lparr>formTitle := lit ''  ''\<rparr>))"
    by (simp add: lit_def white_space_def)
  show ?thesis
    using save_blank_title [OF h, of ex_base "answers 200 [] (Inr note_a)" ex_getTime] h
    by simp
qed

subsection \<open>Save whose call fails\<close>

text \<open>
  C4. When the title is not blank and the call that Save issues (the update when a note is
  selected, the create otherwise) throws, Save sets the error message from what was thrown
  (its message, or "Failed to save note" for a value that is no \<^verbatim>\<open>Error\<close>) and
  leaves every other variable as before the call, the collection and the selection
  included; the saving flag is off. The flag is off at the end of every Save that got past
  the check of the title, whatever the call gave: a note, a failure, or the
  \<^verbatim>\<open>undefined\<close> of a 204 answer.
\<close>

theorem save_failure:
  "(trim (formTitle s) \<noteq> [] \<and>
    (if truthy (selectedId s)
     then api base fetch (lit ''/notes/'' @ the (selectedId s))
            (Some (put_init (trim (formTitle s)) (formContent s)))
     else api base fetch (lit ''/notes'')
            (Some (post_init (trim (formTitle s)) (formContent s)))) = (log, Inl e)
    \<longrightarrow> save base fetch getTime s =
          (log, Done (s\<lparr>saving := False,
                        errorMessage := Some (case e of Error m \<Rightarrow> m
                                              | Not_an_Error \<Rightarrow> lit ''Failed to save note'')\<rparr>))) \<and>
   (trim (formTitle s) \<noteq> [] \<longrightarrow> \<not> saving (final_state (snd (save base fetch getTime s))))"
proof -
  have failing: "save base fetch getTime s =
          (log, Done (s\<lparr>saving := False,
                        errorMessage := Some (case e of Error m \<Rightarrow> m
                                              | Not_an_Error \<Rightarrow> lit ''Failed to save note'')\<rparr>))"
    if "trim (formTitle s) \<noteq> []"
      and "(if truthy (selectedId s)
     then api base fetch (lit ''/notes/'' @ the (selectedId s))
            (Some (put_init (trim (formTitle s)) (formContent s)))
     else api base fetch (lit ''/notes'')
            (Some (post_init (trim (formTitle s)) (formContent s)))) = (log, Inl e)"
    using that
    by (cases "truthy (selectedId s)") (simp_all add: save_def Let_def message_or_def)
  have flag: "\<not> saving (final_state (snd (save base fetch getTime s)))"
    if "trim (formTitle s) \<noteq> []"
    using that
    by (simp add: save_def Let_def split: prod.splits sum.splits option.splits)
  from failing flag show ?thesis by blast
qed

theorem save_failure_witness:
  "save ex_base (answers 500 [] no_json) ex_getTime editing =
     ([(ex_base @ lit ''/notes/1'', fetch_options (Some (put_init (lit ''New'') (lit ''body2''))))],
      Done (editing\<lparr>errorMessage := Some (lit ''Request failed: 500'')\<rparr>)) \<and>
   \<not> saving (final_state (snd (save ex_base (answers 500 [] no_json) ex_getTime editing))) \<and>
   snd (save ex_base (answers 204 [] no_json) ex_getTime editing) =
     Done (editing\<lparr>errorMessage := Some undefined_id_message\<rparr>) \<and>
   \<not> saving (final_state (snd (save ex_base (answers 204 [] no_json) ex_getTime editing))) \<and>
   snd (save ex_base (answers 204 [] no_json) ex_getTime creating) =
     Undefined_first (creating\<lparr>errorMessage := Some undefined_id_message\<rparr>) \<and>
   \<not> saving (final_state (snd (save ex_base (answers 204 [] no_json) ex_getTime creating)))"
proof -
  let ?log = "[(ex_base @ lit ''/notes/1'', fetch_options (Some (put_init (lit ''New'') (lit ''body2''))))]"
  have t: "trim (formTitle editing) \<noteq> []"
    by (simp add: trim_editing lit_def)
  have t': "trim (formTitle creating) \<noteq> []"
    by (simp add: trim_creating lit_def)
  have c: "(if truthy (selectedId editing)
     then api ex_base (answers 500 [] no_json) (lit ''/notes/'' @ the (selectedId editing))
            (Some (put_init (trim (formTitle editing)) (formContent editing)))
     else api ex_base (answers 500 [] no_json) (lit ''/notes'')
            (Some (post_init (trim (formTitle editing)) (formContent editing))))
     = (?log, Inl (Error (lit ''Request failed: 500'')) :: thrown + Note option)"
    unfolding trim_editing
    by (simp add: editing_def truthy_def api_def answers_def ok_def lit_def to_string.simps)
  have s: "save ex_base (answers 500 [] no_json) ex_getTime editing =
     (?log, Done (editing\<lparr>errorMessage := Some (lit ''Request failed: 500'')\<rparr>))"
    using save_failure [of editing ex_base "answers 500 [] no_json" ?log
        "Error (lit ''Request failed: 500'')" ex_getTime] t c
    by (simp add: editing_def)
  have f1: "\<not> saving (final_state (snd (save ex_base (answers 500 [] no_json) ex_getTime editing)))"
    using save_failure [of editing ex_base "answers 500 [] no_json" _ _ ex_getTime] t
    by blast
  have f2: "\<not> saving (final_state (snd (save ex_base (answers 204 [] no_json) ex_getTime editing)))"
    using save_failure [of editing ex_base "answers 204 [] no_json" _ _ ex_getTime] t
    by blast
  have f3: "\<not> saving (final_state (snd (save ex_base (answers 204 [] no_json) ex_getTime creating)))"
    using save_failure [of creating ex_base "answers 204 [] no_json" _ _ ex_getTime] t'
    by blast
  have u: "snd (save ex_base (answers 204 [] no_json) ex_getTime editing) =
     Done (editing\<lparr>errorMessage := Some undefined_id_message\<rparr>)"
    using t unfolding save_def Let_def
    by (simp add: editing_def truthy_def api_def answers_def ok_def message_or_def lit_def)
  have v: "snd (save ex_base (answers 204 [] no_json) ex_getTime creating) =
     Undefined_first (creating\<lparr>errorMessage := Some undefined_id_message\<rparr>)"
    using t' unfolding save_def Let_def
    by (simp add: creating_def truthy_def api_def answers_def ok_def message_or_def)
  from s f1 u f2 v f3 show ?thesis by blast
qed

subsection \<open>Save that creates\<close>

text \<open>
  C5. When no note is selected, the title is not blank and the create call returns a note,
  Save puts that note in front of the collection and sorts the result, so the collection
  holds the entries it held and the new one, one more than before, and the selection is
  the identifier of the new note.
\<close>

theorem save_create_success:
  assumes "selectedId s = None" and "trim (formTitle s) \<noteq> []"
    and "api base fetch (lit ''/notes'') (Some (post_init (trim (formTitle s)) (formContent s)))
           = (log, Inr (Some created))"
  shows "save base fetch getTime s =
           (log, Done (s\<lparr>notes' := array_sort (by_updatedAt getTime) (created # notes' s),
                         selectedId := Some (id' created),
                         saving := False, errorMessage := None\<rparr>)) \<and>
         mset (array_sort (by_updatedAt getTime) (created # notes' s))
           = add_mset created (mset (notes' s)) \<and>
         length (array_sort (by_updatedAt getTime) (created # notes' s)) = length (notes' s) + 1"
proof -
  have "save base fetch getTime s =
          (log, Done (s\<lparr>notes' := array_sort (by_updatedAt getTime) (created # notes' s),
                        selectedId := Some (id' created),
                        saving := False, errorMessage := None\<rparr>))"
    using assms by (simp add: save_def Let_def truthy_def del: array_sort.simps)
  moreover have "mset (array_sort (by_updatedAt getTime) (created # notes' s))
      = add_mset created (mset (notes' s))"
    unfolding mset_array_sort by simp
  moreover have "length (array_sort (by_updatedAt getTime) (created # notes' s))
      = length (notes' s) + 1"
    unfolding length_array_sort by simp
  ultimately show ?thesis by blast
qed

theorem save_create_success_witness:
  "save ex_base (answers 201 [] (Inr note_c)) ex_getTime creating =
     ([(ex_base @ lit ''/notes'', fetch_options (Some (post_init (lit ''Title C'') (lit ''more''))))],
      Done (creating\<lparr>notes' := [note_c, note_b, note_a], selectedId := Some (lit ''3'')\<rparr>)) \<and>
   length [note_c, note_b, note_a] = length (notes' creating) + 1"
proof -
  let ?log = "[(ex_base @ lit ''/notes'', fetch_options (Some (post_init (lit ''Title C'') (lit ''more''))))]"
  have a: "selectedId creating = None"
    by (simp add: creating_def)
  have t: "trim (formTitle creating) \<noteq> []"
    by (simp add: trim_creating lit_def)
  have c: "api ex_base (answers 201 [] (Inr note_c)) (lit ''/notes'')
             (Some (post_init (trim (formTitle creating)) (formContent creating)))
           = (?log, Inr (Some note_c))"
    unfolding trim_creating
    by (simp add: creating_def api_def answers_def ok_def)
  have srt: "array_sort (by_updatedAt ex_getTime) (note_c # notes' creating) = [note_c, note_b, note_a]"
    by (simp add: creating_def by_updatedAt_def ex_getTime_def note_a_def note_b_def note_c_def lit_def)
  show ?thesis
    using save_create_success [OF a t c, of ex_getTime] srt
    by (simp add: creating_def note_c_def)
qed

subsection \<open>Save that updates\<close>

text \<open>
  C10. In the update branch the entries replaced are those whose identifier is the
  identifier of the note the server returned; the selection plays no part. So when no
  entry has that identifier, a successful update replaces and inserts nothing: the
  collection is the old one sorted, with the same entries.
\<close>

theorem save_update_keyed_on_returned_id:
  assumes "selectedId s = Some sel" and "sel \<noteq> []" and "trim (formTitle s) \<noteq> []"
    and "api base fetch (lit ''/notes/'' @ sel)
           (Some (put_init (trim (formTitle s)) (formContent s))) = (log, Inr (Some updated))"
  shows "save base fetch getTime s =
           (log, Done (s\<lparr>notes' :=
                           array_sort (by_updatedAt getTime)
                             (map (\<lambda>n. if id' n = id' updated then updated else n) (notes' s)),
                         saving := False, errorMessage := None\<rparr>)) \<and>
         (id' updated \<notin> id' ` set (notes' s) \<longrightarrow>
            save base fetch getTime s =
              (log, Done (s\<lparr>notes' := array_sort (by_updatedAt getTime) (notes' s),
                            saving := False, errorMessage := None\<rparr>)) \<and>
            mset (array_sort (by_updatedAt getTime) (notes' s)) = mset (notes' s))"
proof -
  have run: "save base fetch getTime s =
           (log, Done (s\<lparr>notes' :=
                           array_sort (by_updatedAt getTime)
                             (map (\<lambda>n. if id' n = id' updated then updated else n) (notes' s)),
                         saving := False, errorMessage := None\<rparr>))"
    using assms by (simp add: save_def Let_def truthy_def)
  have "map (\<lambda>n. if id' n = id' updated then updated else n) (notes' s) = notes' s"
    if "id' updated \<notin> id' ` set (notes' s)"
    using that by (rule map_replace_absent)
  with run show ?thesis
    by (simp add: mset_array_sort)
qed

theorem save_update_keyed_on_returned_id_witness:
  "id' note_c \<notin> id' ` set (notes' editing) \<and>
   save ex_base (answers 200 [] (Inr note_c)) ex_getTime editing =
     ([(ex_base @ lit ''/notes/1'', fetch_options (Some (put_init (lit ''New'') (lit ''body2''))))],
      Done editing)"
proof -
  have a: "selectedId editing = Some (lit ''1'')" and b: "lit ''1'' \<noteq> []"
    by (simp_all add: editing_def lit_def)
  have t: "trim (formTitle editing) \<noteq> []"
    by (simp add: trim_editing lit_def)
  have c: "api ex_base (answers 200 [] (Inr note_c)) (lit ''/notes/'' @ lit ''1'')
             (Some (put_init (trim (formTitle editing)) (formContent editing)))
           = ([(ex_base @ lit ''/notes/1'', fetch_options (Some (put_init (lit ''New'') (lit ''body2''))))],
              Inr (Some note_c))"
    unfolding trim_editing
    by (simp add: editing_def api_def answers_def ok_def lit_def)
  have d: "id' note_c \<notin> id' ` set (notes' editing)"
    by (simp add: editing_def note_a_def note_b_def note_c_def lit_def)
  have srt: "array_sort (by_updatedAt ex_getTime) (notes' editing) = [note_b, note_a]"
    by (simp add: editing_def by_updatedAt_def ex_getTime_def note_a_def note_b_def lit_def)
  have "save ex_base (answers 200 [] (Inr note_c)) ex_getTime editing =
      ([(ex_base @ lit ''/notes/1'', fetch_options (Some (put_init (lit ''New'') (lit ''body2''))))],
       Done (editing\<lparr>notes' := array_sort (by_updatedAt ex_getTime) (notes' editing),
                      saving := False, errorMessage := None\<rparr>))"
    using save_update_keyed_on_returned_id [OF a b t c, of ex_getTime] d by blast
  then show ?thesis
    unfolding srt using d by (simp add: editing_def)
qed

subsection \<open>Delete that succeeds\<close>

text \<open>
  C6. When the call of Delete for an identifier succeeds, the collection loses the entries
  with that identifier and keeps the others in their order. If the selection is that
  identifier the state then goes through StartCreate: the selection is none and both fields
  of the form draft are empty. Otherwise the selection and the draft stay.
\<close>

theorem deleteNote_success:
  assumes "api base fetch (lit ''/notes/'' @ i) (Some delete_init) = (log, Inr v)"
  shows "fst (deleteNote base fetch i s) = log \<and>
         notes' (snd (deleteNote base fetch i s)) = filter (\<lambda>n. id' n \<noteq> i) (notes' s) \<and>
         (selectedId s = Some i \<longrightarrow>
            snd (deleteNote base fetch i s) =
              startCreate (s\<lparr>notes' := filter (\<lambda>n. id' n \<noteq> i) (notes' s), deletingId := None\<rparr>) \<and>
            selectedId (snd (deleteNote base fetch i s)) = None \<and>
            formTitle (snd (deleteNote base fetch i s)) = [] \<and>
            formContent (snd (deleteNote base fetch i s)) = []) \<and>
         (selectedId s \<noteq> Some i \<longrightarrow>
            snd (deleteNote base fetch i s) =
              s\<lparr>notes' := filter (\<lambda>n. id' n \<noteq> i) (notes' s), deletingId := None,
                errorMessage := None\<rparr>)"
  using assms by (simp add: deleteNote_def Let_def startCreate_def)

theorem deleteNote_success_witness:
  "deleteNote ex_base (answers 204 [] no_json) (lit ''1'') editing =
     ([(ex_base @ lit ''/notes/1'', fetch_options (Some delete_init))],
      editing\<lparr>notes' := [note_b], selectedId := None, formTitle := [], formContent := []\<rparr>) \<and>
   deleteNote ex_base (answers 204 [] no_json) (lit ''2'') editing =
     ([(ex_base @ lit ''/notes/2'', fetch_options (Some delete_init))],
      editing\<lparr>notes' := [note_a]\<rparr>)"
proof -
  have a: "api ex_base (answers 204 [] no_json) (lit ''/notes/'' @ lit ''1'') (Some delete_init)
      = ([(ex_base @ lit ''/notes/1'', fetch_options (Some delete_init))], Inr (None :: unit option))"
    and b: "api ex_base (answers 204 [] no_json) (lit ''/notes/'' @ lit ''2'') (Some delete_init)
      = ([(ex_base @ lit ''/notes/2'', fetch_options (Some delete_init))], Inr (None :: unit option))"
    by (simp_all add: api_def answers_def ok_def lit_def)
  have f1: "filter (\<lambda>n. id' n \<noteq> lit ''1'') (notes' editing) = [note_b]"
    and f2: "filter (\<lambda>n. id' n \<noteq> lit ''2'') (notes' editing) = [note_a]"
    by (simp_all add: editing_def note_a_def note_b_def lit_def)
  have s1: "selectedId editing = Some (lit ''1'')" and s2: "selectedId editing \<noteq> Some (lit ''2'')"
    by (simp_all add: editing_def lit_def)
  show ?thesis
    using deleteNote_success [OF a, of editing] deleteNote_success [OF b, of editing] s1 s2
    unfolding f1 f2
    by (simp add: prod_eq_iff startCreate_def editing_def)
qed

subsection \<open>Load that fails\<close>

text \<open>
  C8. When the call of Load throws, the error message is the message of what was thrown,
  or "Failed to load notes" for a value that is no \<^verbatim>\<open>Error\<close>; the loading flag is
  off; and the collection is the one before the call.
\<close>

theorem loadNotes_failure:
  assumes "api base fetch (lit ''/notes'') None = (log, Inl e)"
  shows "loadNotes base fetch s =
           (log, Done (s\<lparr>loading := False,
                         errorMessage := Some (case e of Error m \<Rightarrow> m
                                               | Not_an_Error \<Rightarrow> lit ''Failed to load notes'')\<rparr>)) \<and>
         notes' (s\<lparr>loading := False,
                  errorMessage := Some (case e of Error m \<Rightarrow> m
                                        | Not_an_Error \<Rightarrow> lit ''Failed to load notes'')\<rparr>) = notes' s"
  using assms by (simp add: loadNotes_def message_or_def)

theorem loadNotes_failure_witness:
  "loadNotes ex_base (answers 503 (lit ''Service Unavailable'') no_json) (initial_state\<lparr>notes' := [note_a]\<rparr>) =
     ([(ex_base @ lit ''/notes'', fetch_options None)],
      Done (initial_state\<lparr>notes' := [note_a], loading := False,
                            errorMessage := Some (lit ''Service Unavailable'')\<rparr>)) \<and>
   loadNotes ex_base (rejects Not_an_Error) (initial_state\<lparr>notes' := [note_a]\<rparr>) =
     ([(ex_base @ lit ''/notes'', fetch_options None)],
      Done (initial_state\<lparr>notes' := [note_a], loading := False,
                            errorMessage := Some (lit ''Failed to load notes'')\<rparr>))"
proof -
  have a: "api ex_base (answers 503 (lit ''Service Unavailable'') (no_json :: thrown + Note list))
             (lit ''/notes'') None =
           ([(ex_base @ lit ''/notes'', fetch_options None)], Inl (Error (lit ''Service Unavailable'')))"
    by (simp add: api_def answers_def ok_def lit_def)
  have b: "api ex_base (rejects Not_an_Error :: request \<Rightarrow> thrown + Note list response)
             (lit ''/notes'') None =
           ([(ex_base @ lit ''/notes'', fetch_options None)], Inl Not_an_Error)"
    by (simp add: api_def rejects_def)
  show ?thesis
    using loadNotes_failure [OF a, of "initial_state\<lparr>notes' := [note_a]\<rparr>"]
      loadNotes_failure [OF b, of "initial_state\<lparr>notes' := [note_a]\<rparr>"]
    by simp
qed

subsection \<open>Statuses of the gateway\<close>

text \<open>
  C3. The gateway's delete is the call of \<^verbatim>\<open>api\<close> with the method DELETE on
  \<^verbatim>\<open>/notes/{id}\<close>. When the answer has the status 204 the call returns with no decoded
  payload, whatever decoding the body would give; when the status is outside 200 to 299 the
  call throws an \<^verbatim>\<open>Error\<close>.
\<close>

theorem api_delete_status:
  assumes "fetch (base @ lit ''/notes/'' @ i, fetch_options (Some delete_init)) = Inr res"
  shows "(status res = 204 \<longrightarrow>
            api base fetch (lit ''/notes/'' @ i) (Some delete_init) =
              ([(base @ lit ''/notes/'' @ i, fetch_options (Some delete_init))], Inr None)) \<and>
         (\<not> ok res \<longrightarrow>
            (\<exists>m. api base fetch (lit ''/notes/'' @ i) (Some delete_init) =
              ([(base @ lit ''/notes/'' @ i, fetch_options (Some delete_init))], Inl (Error m))))"
  using assms by (simp add: api_def Let_def ok_def)

theorem api_delete_status_witness:
  "snd (api ex_base (answers 204 [] no_json) (lit ''/notes/3'') (Some delete_init)) = Inr (None :: unit option) \<and>
   (\<exists>m. snd (api ex_base (answers 500 [] (no_json :: thrown + unit)) (lit ''/notes/3'') (Some delete_init))
      = Inl (Error m))"
  using api_delete_status [of "answers 204 [] (no_json :: thrown + unit)" ex_base "lit ''3''"
      "\<lparr>status = 204, res_text = Inr [], res_json = no_json\<rparr>"]
    api_delete_status [of "answers 500 [] (no_json :: thrown + unit)" ex_base "lit ''3''"
      "\<lparr>status = 500, res_text = Inr [], res_json = no_json\<rparr>"]
  by (auto simp: answers_def ok_def lit_def)

text \<open>
  C7. For every path and every \<^verbatim>\<open>init\<close>, when the status of the answer is outside 200
  to 299 the call throws an \<^verbatim>\<open>Error\<close> whose message is the text of the body when that
  text is not empty, and "Request failed: " followed by the status otherwise (also when
  reading the text fails).
\<close>

theorem api_failure_message:
  assumes "fetch (base @ path, fetch_options i) = Inr res" and "\<not> ok res"
  shows "snd (api base fetch path i) =
           Inl (Error (case res_text res of
                         Inr t \<Rightarrow> if t \<noteq> [] then t
                                  else lit ''Request failed: '' @ to_string (status res)
                       | Inl _ \<Rightarrow> lit ''Request failed: '' @ to_string (status res)))"
  using assms by (simp add: api_def Let_def split: sum.splits)

theorem api_failure_message_witness:
  "\<not> ok \<lparr>status = 404, res_text = Inr (lit ''Note not found''), res_json = (no_json :: thrown + Note)\<rparr> \<and>
   snd (api ex_base (answers 404 (lit ''Note not found'') (no_json :: thrown + Note)) (lit ''/notes/7'')
          (Some (put_init (lit ''T'') (lit ''c'')))) = Inl (Error (lit ''Note not found'')) \<and>
   \<not> ok \<lparr>status = 500, res_text = Inr [], res_json = (no_json :: thrown + Note list)\<rparr> \<and>
   snd (api ex_base (answers 500 [] (no_json :: thrown + Note list)) (lit ''/notes'') None)
     = Inl (Error (lit ''Request failed: 500''))"
proof -
  have a: "\<not> ok \<lparr>status = 404, res_text = Inr (lit ''Note not found''), res_json = (no_json :: thrown + Note)\<rparr>"
    and b: "\<not> ok \<lparr>status = 500, res_text = Inr [], res_json = (no_json :: thrown + Note list)\<rparr>"
    by (simp_all add: ok_def)
  have c: "answers 404 (lit ''Note not found'') (no_json :: thrown + Note)
            (ex_base @ lit ''/notes/7'', fetch_options (Some (put_init (lit ''T'') (lit ''c''))))
          = Inr \<lparr>status = 404, res_text = Inr (lit ''Note not found''), res_json = no_json\<rparr>"
    and d: "answers 500 [] (no_json :: thrown + Note list) (ex_base @ lit ''/notes'', fetch_options None)
          = Inr \<lparr>status = 500, res_text = Inr [], res_json = no_json\<rparr>"
    by (simp_all add: answers_def)
  show ?thesis
    using
      api_failure_message [of "answers 404 (lit ''Note not found'') (no_json :: thrown + Note)"
        ex_base "lit ''/notes/7''" "Some (put_init (lit ''T'') (lit ''c''))", OF c a]
      api_failure_message [of "answers 500 [] (no_json :: thrown + Note list)"
        ex_base "lit ''/notes''" None, OF d b] a b
    by (simp add: lit_def to_string.simps)
qed

subsection \<open>StartCreate\<close>

text \<open>
  C9. StartCreate is idempotent: applied twice it gives the state it gives applied once;
  and it sets the selection to none, empties both fields of the form draft and clears the
  error message.
\<close>

theorem startCreate_idempotent:
  "startCreate (startCreate s) = startCreate s \<and>
   selectedId (startCreate s) = None \<and>
   formTitle (startCreate s) = [] \<and>
   formContent (startCreate s) = [] \<and>
   errorMessage (startCreate s) = None"
  by (simp add: startCreate_def)

end
